theory Spec2Isabelle
  imports Complex_Main "HOL-Library.AList"
begin

section \<open>ChainSonar: the scanner of \<^verbatim>\<open>sonar_scanner.py\<close>\<close>

text \<open>
  The development embeds the Python module \<^verbatim>\<open>sonar_scanner.py\<close>: its string
  primitives, the division of integers, the allow-list of tokens, the loading of the
  address file, the fetch of transactions, the scan loop and the entry point.
  A Python \<^verbatim>\<open>str\<close> is a \<^typ>\<open>string\<close>; a character is read as the code point
  of the same number (0 to 255). A \<^verbatim>\<open>dict\<close> is an association list: lookup is
  \<^const>\<open>map_of\<close>, and assignment is \<^const>\<open>AList.update\<close>, which overwrites in
  place and appends a new key at the end, as Python's insertion-ordered dictionaries do.
  Exceptions are values of the type \<open>error\<close>.
\<close>

subsection \<open>Exceptions\<close>

datatype error =
    EnvironmentError
  | FileNotFoundError
  | ValueError
  | KeyError
  | TypeError
  | AttributeError
  | ZeroDivisionError
  | OverflowError
  | KeyboardInterrupt
  | SystemExit nat

subsection \<open>String primitives\<close>

text \<open>\<^verbatim>\<open>str.lower\<close> on the code points below 256: the letters A to Z and the
  Latin-1 capitals (192 to 222 without the multiplication sign 215) move up by 32.\<close>

definition lower_char :: "char \<Rightarrow> char" where
  "lower_char c =
     (let n = (of_char c :: nat) in
      if (65 \<le> n \<and> n \<le> 90) \<or> (192 \<le> n \<and> n \<le> 222 \<and> n \<noteq> 215)
      then char_of (n + 32) else c)"

definition lower :: "string \<Rightarrow> string" where
  "lower s = map lower_char s"

text \<open>The characters that \<^verbatim>\<open>str.strip()\<close> takes for white space
  (\<^verbatim>\<open>str.isspace\<close> below 256).\<close>

definition is_space :: "char \<Rightarrow> bool" where
  "is_space c =
     (let n = (of_char c :: nat) in
      (9 \<le> n \<and> n \<le> 13) \<or> (28 \<le> n \<and> n \<le> 32) \<or> n = 133 \<or> n = 160)"

definition strip :: "string \<Rightarrow> string" where
  "strip s = rev (dropWhile is_space (rev (dropWhile is_space s)))"

text \<open>\<^verbatim>\<open>s.split(sep)\<close> for a separator of one character: at least one field.\<close>

fun split :: "char \<Rightarrow> string \<Rightarrow> string list" where
  "split sep [] = [[]]"
| "split sep (c # cs) =
     (if c = sep then [] # split sep cs
      else (case split sep cs of
              [] \<Rightarrow> [[c]]
            | f # fs \<Rightarrow> (c # f) # fs))"

definition startswith :: "string \<Rightarrow> string \<Rightarrow> bool" where
  "startswith s p = (take (length p) s = p)"

text \<open>The short form of an address: \<^verbatim>\<open>address[:6] + '...' + address[-4:]\<close>.\<close>

definition abbrev :: "string \<Rightarrow> string" where
  "abbrev address = take 6 address @ ''...'' @ drop (length address - 4) address"

subsection \<open>\<^verbatim>\<open>int(str)\<close>\<close>

text \<open>
  \<^verbatim>\<open>int(s)\<close> in base ten: white space around, one optional sign, then digits, where
  a single underscore may stand between two digits. Anything else raises
  \<^verbatim>\<open>ValueError\<close>. (The limit on the number of digits of recent interpreters is
  left out.)
\<close>

text \<open>The white space of \<^verbatim>\<open>int()\<close> is narrower than the one of
  \<^verbatim>\<open>str.strip()\<close>: the separators 28 to 31 are not skipped.\<close>

definition is_int_space :: "char \<Rightarrow> bool" where
  "is_int_space c =
     (let n = (of_char c :: nat) in
      (9 \<le> n \<and> n \<le> 13) \<or> n = 32 \<or> n = 133 \<or> n = 160)"

definition is_digit :: "char \<Rightarrow> bool" where
  "is_digit c = (let n = (of_char c :: nat) in 48 \<le> n \<and> n \<le> 57)"

definition digit_val :: "char \<Rightarrow> int" where
  "digit_val c = int (of_char c) - 48"

text \<open>\<open>digits acc prev cs\<close>: \<open>prev\<close> tells whether the character before was a digit.\<close>

fun digits :: "int \<Rightarrow> bool \<Rightarrow> string \<Rightarrow> int option" where
  "digits acc prev [] = (if prev then Some acc else None)"
| "digits acc prev (c # cs) =
     (if is_digit c then digits (acc * 10 + digit_val c) True cs
      else if c = CHR ''_'' \<and> prev then digits acc False cs
      else None)"

definition py_int :: "string \<Rightarrow> error + int" where
  "py_int s =
     (case rev (dropWhile is_int_space (rev (dropWhile is_int_space s))) of
        [] \<Rightarrow> Inl ValueError
      | c # cs \<Rightarrow>
          (if c = CHR ''-'' then
             (case digits 0 False cs of None \<Rightarrow> Inl ValueError | Some n \<Rightarrow> Inr (- n))
           else if c = CHR ''+'' then
             (case digits 0 False cs of None \<Rightarrow> Inl ValueError | Some n \<Rightarrow> Inr n)
           else
             (case digits 0 False (c # cs) of None \<Rightarrow> Inl ValueError | Some n \<Rightarrow> Inr n)))"

subsection \<open>True division of integers\<close>

text \<open>
  \<^verbatim>\<open>a / b\<close> on two Python integers is the double nearest to the quotient, ties to
  the even mantissa; it raises \<^verbatim>\<open>ZeroDivisionError\<close> for a zero divisor and
  \<^verbatim>\<open>OverflowError\<close> when the rounded quotient is no double. A double is modelled
  by the real number it denotes.
\<close>

function bit_length :: "int \<Rightarrow> nat" where
  "bit_length n = (if n \<le> 0 then 0 else Suc (bit_length (n div 2)))"
  by pat_completeness auto
termination
  by (relation "measure nat") auto

declare bit_length.simps [simp del]

text \<open>The integer part of the binary logarithm of \<open>n / d\<close>, for positive \<open>n\<close> and \<open>d\<close>.\<close>

definition ilog2_quot :: "int \<Rightarrow> int \<Rightarrow> int" where
  "ilog2_quot n d =
     (let k = int (bit_length n) - int (bit_length d) in
      if (if 0 \<le> k then d * 2 ^ nat k \<le> n else d \<le> n * 2 ^ nat (- k)) then k else k - 1)"

text \<open>The integer nearest to \<open>n / d\<close> for positive \<open>d\<close>, ties to the even one.\<close>

definition round_half_even :: "int \<Rightarrow> int \<Rightarrow> int" where
  "round_half_even n d =
     (let q = n div d; r = n mod d in
      if 2 * r < d then q
      else if d < 2 * r then q + 1
      else if even q then q else q + 1)"

text \<open>
  The quotient is scaled by a power of two \<open>e\<close> such that its mantissa \<open>m\<close> has 53
  bits (fewer below the smallest normal double, where \<open>e\<close> stays at \<open>- 1074\<close>); the
  result is \<open>m\<close> times two to the \<open>e\<close>, with the sign of the quotient.
\<close>

definition py_truediv :: "int \<Rightarrow> int \<Rightarrow> error + real" where
  "py_truediv a b =
     (if b = 0 then Inl ZeroDivisionError
      else if a = 0 then Inr 0
      else
        let n = \<bar>a\<bar>; d = \<bar>b\<bar>;
            e = max (ilog2_quot n d - 52) (- 1074);
            m = (if e \<le> 0 then round_half_even (n * 2 ^ nat (- e)) d
                 else round_half_even n (d * 2 ^ nat e))
        in if 0 \<le> e \<and> 2 ^ 1024 \<le> m * 2 ^ nat e then Inl OverflowError
           else Inr (of_int (sgn a * sgn b) *
                     (if 0 \<le> e then of_int (m * 2 ^ nat e) else of_int m / 2 ^ nat (- e))))"

subsection \<open>Configuration and data\<close>

text \<open>The allow-list \<^verbatim>\<open>WATCHED_TOKENS\<close>, with its keys as the source writes them;
  an entry is the pair of the symbol and the decimals.\<close>

definition WATCHED_TOKENS :: "(string \<times> (string \<times> nat)) list" where
  "WATCHED_TOKENS =
     [(''0xC02aaA39b223FE8D0A0e5C4F27eAD9083C756Cc2'', (''WETH'', 18)),
      (''0xA0b86991c6218b36c1d19D4a2e9Eb0cE3606eB48'', (''USDC'', 6)),
      (''0xdAC17F958D2ee523a2206206994597C13D831ec7'', (''USDT'', 6))]"

text \<open>A transaction record is the JSON object of the explorer, a dictionary from field
  names to strings.\<close>

type_synonym tx = "(string \<times> string) list"

text \<open>
  The object \<^verbatim>\<open>self\<close> of \<^verbatim>\<open>ChainSonar\<close>, with the module's constant
  \<^verbatim>\<open>ETHERSCAN_API_KEY\<close>. \<open>targets\<close> maps an address to its name;
  \<open>last_seen_block\<close> maps an address to \<^verbatim>\<open>None\<close> or to a block number, which the
  explorer gives as a string. The thresholds are doubles, read as reals.
\<close>

record sonar =
  ETHERSCAN_API_KEY :: string
  eth_threshold :: real
  stable_threshold :: real
  targets :: "(string \<times> string) list"
  last_seen_block :: "(string \<times> string option) list"

text \<open>
  What the scanner writes: the lines of \<^verbatim>\<open>self.log\<close> (without their time stamp),
  the messages on the error stream, and the call of \<^verbatim>\<open>notification.notify\<close>.
  Amounts are kept as numbers; the two-decimal formatting is not modelled.
\<close>

datatype event =
    Log_tracking nat
  | Log_activated
  | Log_thresholds real real
  | Log_signal
  | Log_whale string string
  | Log_received real string
  | Log_tx string
  | Notification string real string
  | Log_deactivated
  | Stderr_whales
  | Stderr_init error

subsection \<open>The body of the loop over the records (lines 100 to 129 of \<^verbatim>\<open>run\<close>)\<close>

text \<open>Lines 104 to 119: the amount, the symbol and the threshold of a record.\<close>

definition classify :: "sonar \<Rightarrow> tx \<Rightarrow> error + (real \<times> string \<times> real)" where
  "classify st tx =
     (if map_of tx ''tokenSymbol'' = None then
        (case map_of tx ''value'' of
           None \<Rightarrow> Inl KeyError
         | Some v \<Rightarrow>
             (case py_int v of
                Inl e \<Rightarrow> Inl e
              | Inr n \<Rightarrow>
                  (case py_truediv n (10 ^ 18) of
                     Inl e \<Rightarrow> Inl e
                   | Inr amount \<Rightarrow> Inr (amount, ''ETH'', eth_threshold st))))
      else
        (case map_of tx ''contractAddress'' of
           None \<Rightarrow> Inl KeyError
         | Some ca \<Rightarrow>
             (case map_of WATCHED_TOKENS (lower ca) of
                None \<Rightarrow> Inr (0, [], 0)
              | Some (symb, dec) \<Rightarrow>
                  (case map_of tx ''value'' of
                     None \<Rightarrow> Inl KeyError
                   | Some v \<Rightarrow>
                       (case py_int v of
                          Inl e \<Rightarrow> Inl e
                        | Inr n \<Rightarrow>
                            (case py_truediv n (10 ^ dec) of
                               Inl e \<Rightarrow> Inl e
                             | Inr amount \<Rightarrow>
                                 Inr (amount, symb,
                                      if symb = ''WETH'' then eth_threshold st
                                      else stable_threshold st)))))))"

text \<open>One record: the outputs, and the exception if one is raised.\<close>

definition scan_tx :: "sonar \<Rightarrow> string \<Rightarrow> string \<Rightarrow> tx \<Rightarrow> event list \<times> error option" where
  "scan_tx st address name tx =
     (case map_of tx ''to'' of
        None \<Rightarrow> ([], Some KeyError)
      | Some dest \<Rightarrow>
          if lower dest \<noteq> address then ([], None)
          else
            (case classify st tx of
               Inl e \<Rightarrow> ([], Some e)
             | Inr (amount, symb, threshold) \<Rightarrow>
                 if threshold \<le> amount then
                   (case map_of tx ''hash'' of
                      None \<Rightarrow>
                        ([Log_signal, Log_whale name (abbrev address),
                          Log_received amount symb], Some KeyError)
                    | Some h \<Rightarrow>
                        ([Log_signal, Log_whale name (abbrev address),
                          Log_received amount symb, Log_tx h,
                          Notification name amount symb], None))
                 else ([], None)))"

text \<open>The loop \<^verbatim>\<open>for tx in txs\<close>: it stops at the first exception.\<close>

fun scan_txs :: "sonar \<Rightarrow> string \<Rightarrow> string \<Rightarrow> tx list \<Rightarrow> event list \<times> error option" where
  "scan_txs st address name [] = ([], None)"
| "scan_txs st address name (tx # txs) =
     (case scan_tx st address name tx of
        (out, Some e) \<Rightarrow> (out, Some e)
      | (out, None) \<Rightarrow>
          (case scan_txs st address name txs of (out', r) \<Rightarrow> (out @ out', r)))"

subsection \<open>\<^verbatim>\<open>fetch_transactions\<close>\<close>

text \<open>The parameters of one request; \<^verbatim>\<open>startblock\<close> is \<^verbatim>\<open>None\<close> while the
  watermark is unset.\<close>

record params =
  module_p :: string
  action_p :: string
  address_p :: string
  startblock_p :: "string option"
  endblock_p :: string
  sort_p :: string
  apikey_p :: string

text \<open>
  What one \<^verbatim>\<open>session.get(...)\<close> can bring: a failure of the connection, a body that
  is no JSON, a JSON value that is no object, or an object whose field \<^verbatim>\<open>result\<close> is
  absent, \<^verbatim>\<open>null\<close>, an array of records or a string (the explorer's error
  messages). The user's interruption can arrive during any request.
\<close>

datatype result_field = Absent | Null | Array "tx list" | Text string

datatype http = ConnectionFailure | NotJson | NonObject | Object result_field | Interrupt

type_synonym explorer = "params \<Rightarrow> http"

text \<open>\<^verbatim>\<open>session.get(API_URL, params=params).json().get('result', [])\<close>\<close>

fun get_result :: "http \<Rightarrow> error + result_field" where
  "get_result ConnectionFailure = Inl EnvironmentError"
| "get_result NotJson = Inl ValueError"
| "get_result NonObject = Inl AttributeError"
| "get_result Interrupt = Inl KeyboardInterrupt"
| "get_result (Object Absent) = Inr (Array [])"
| "get_result (Object r) = Inr r"

text \<open>A value of \<^verbatim>\<open>x or []\<close>, and of the sum of two of them: a list of records or a
  string.\<close>

datatype fetched = Txs "tx list" | Chars string

fun or_empty :: "result_field \<Rightarrow> fetched" where
  "or_empty Absent = Txs []"
| "or_empty Null = Txs []"
| "or_empty (Array xs) = Txs xs"
| "or_empty (Text s) = (if s = [] then Txs [] else Chars s)"

fun py_add :: "fetched \<Rightarrow> fetched \<Rightarrow> error + fetched" where
  "py_add (Txs xs) (Txs ys) = Inr (Txs (xs @ ys))"
| "py_add (Chars s) (Chars t) = Inr (Chars (s @ t))"
| "py_add (Txs xs) (Chars t) = Inl TypeError"
| "py_add (Chars s) (Txs ys) = Inl TypeError"

definition request :: "sonar \<Rightarrow> string \<Rightarrow> string \<Rightarrow> string option \<Rightarrow> params" where
  "request st act address start =
     \<lparr>module_p = ''account'', action_p = act, address_p = address,
      startblock_p = start, endblock_p = ''99999999'', sort_p = ''desc'',
      apikey_p = ETHERSCAN_API_KEY st\<rparr>"

definition fetch_transactions :: "explorer \<Rightarrow> sonar \<Rightarrow> string \<Rightarrow> error + fetched" where
  "fetch_transactions api st address =
     (case map_of (last_seen_block st) address of
        None \<Rightarrow> Inl KeyError
      | Some start \<Rightarrow>
          (case get_result (api (request st ''txlist'' address start)) of
             Inl e \<Rightarrow> Inl e
           | Inr eth_txs \<Rightarrow>
               (case get_result (api (request st ''tokentx'' address start)) of
                  Inl e \<Rightarrow> Inl e
                | Inr token_txs \<Rightarrow> py_add (or_empty eth_txs) (or_empty token_txs))))"

subsection \<open>The scan loop of \<^verbatim>\<open>run\<close>\<close>

text \<open>
  The body of \<^verbatim>\<open>for address, data in self.targets.items()\<close> (lines 92 to 131): the
  new state, the outputs, and the exception that leaves the body, if any.
\<close>

definition scan_target ::
  "explorer \<Rightarrow> sonar \<Rightarrow> string \<times> string \<Rightarrow> sonar \<times> event list \<times> error option" where
  "scan_target api st t =
     (case t of (address, name) \<Rightarrow>
        (case fetch_transactions api st address of
           Inl e \<Rightarrow> (st, [], Some e)
         | Inr (Chars s) \<Rightarrow> (if s = [] then (st, [], None) else (st, [], Some TypeError))
         | Inr (Txs txs) \<Rightarrow>
             (case txs of
                [] \<Rightarrow> (st, [], None)
              | tx0 # rest \<Rightarrow>
                  (case map_of tx0 ''blockNumber'' of
                     None \<Rightarrow> (st, [], Some KeyError)
                   | Some b \<Rightarrow>
                       let st' = st\<lparr>last_seen_block :=
                                   AList.update address (Some b) (last_seen_block st)\<rparr>
                       in (case scan_txs st' address name txs of
                             (out, r) \<Rightarrow> (st', out, r))))))"

text \<open>The loop over the targets, which ends at the first exception.\<close>

fun scan_targets ::
  "explorer \<Rightarrow> sonar \<Rightarrow> (string \<times> string) list \<Rightarrow> sonar \<times> event list \<times> error option" where
  "scan_targets api st [] = (st, [], None)"
| "scan_targets api st (t # ts) =
     (case scan_target api st t of
        (st', out, Some e) \<Rightarrow> (st', out, Some e)
      | (st', out, None) \<Rightarrow>
          (case scan_targets api st' ts of (st'', out', r) \<Rightarrow> (st'', out @ out', r)))"

text \<open>One pass of \<^verbatim>\<open>while True\<close>. The dictionary of targets does not change during
  the pass.\<close>

definition cycle :: "explorer \<Rightarrow> sonar \<Rightarrow> sonar \<times> event list \<times> error option" where
  "cycle api st = scan_targets api st (targets st)"

text \<open>
  \<open>cycles api i n st\<close>: \<open>n\<close> passes of \<^verbatim>\<open>while True\<close>, where \<open>api j\<close> is the
  explorer as it answers during pass \<open>j\<close>, from pass \<open>i\<close> on. The result \<open>None\<close> in
  the last component means that the loop is still running after \<open>n\<close> passes.
\<close>

fun cycles ::
  "(nat \<Rightarrow> explorer) \<Rightarrow> nat \<Rightarrow> nat \<Rightarrow> sonar \<Rightarrow> sonar \<times> event list \<times> error option" where
  "cycles api i 0 st = (st, [], None)"
| "cycles api i (Suc n) st =
     (case cycle (api i) st of
        (st', out, Some e) \<Rightarrow> (st', out, Some e)
      | (st', out, None) \<Rightarrow>
          (case cycles api (Suc i) n st' of (st'', out', r) \<Rightarrow> (st'', out @ out', r)))"

text \<open>\<^verbatim>\<open>run\<close>: the only handler is the one of \<^verbatim>\<open>KeyboardInterrupt\<close>, which logs
  and calls \<^verbatim>\<open>sys.exit(0)\<close>; every other exception leaves \<^verbatim>\<open>run\<close>.\<close>

definition run :: "(nat \<Rightarrow> explorer) \<Rightarrow> nat \<Rightarrow> sonar \<Rightarrow> sonar \<times> event list \<times> error option" where
  "run api n st =
     (case cycles api 0 n st of (st', out, r) \<Rightarrow>
        let out0 = [Log_activated, Log_thresholds (eth_threshold st) (stable_threshold st)] @ out
        in if r = Some KeyboardInterrupt
           then (st', out0 @ [Log_deactivated], Some (SystemExit 0))
           else (st', out0, r))"

subsection \<open>\<^verbatim>\<open>load_targets\<close>, \<^verbatim>\<open>__init__\<close> and the entry point\<close>

text \<open>
  The loop of \<^verbatim>\<open>load_targets\<close> over the lines of the file. Its first argument is
  the attribute \<^verbatim>\<open>self.last_seen_block\<close>: \<open>None\<close> while the object has no such
  attribute, in which case the assignment of line 46 raises \<^verbatim>\<open>AttributeError\<close>.
  (\<^const>\<open>split\<close> never returns the empty list, so \<^verbatim>\<open>parts[0]\<close> exists.)
\<close>

fun load_lines ::
  "(string \<times> string option) list option \<Rightarrow> (string \<times> string) list \<Rightarrow> string list \<Rightarrow>
   error + ((string \<times> string) list \<times> (string \<times> string option) list option)" where
  "load_lines lsb tgts [] = Inr (tgts, lsb)"
| "load_lines lsb tgts (line # ls) =
     (if strip line = [] \<or> startswith line ''#'' then load_lines lsb tgts ls
      else
        let parts = map strip (split CHR '','' line);
            address = lower (hd parts);
            name = (if 1 < length parts then parts ! 1 else abbrev address);
            tgts' = AList.update address name tgts
        in (case lsb of
              None \<Rightarrow> Inl AttributeError
            | Some l \<Rightarrow> load_lines (Some (AList.update address None l)) tgts' ls))"

text \<open>
  \<^verbatim>\<open>load_targets\<close>: the file is \<open>None\<close> when \<^verbatim>\<open>whales.txt\<close> does not exist.
  \<^verbatim>\<open>FileNotFoundError\<close>, raised by \<^verbatim>\<open>open\<close> or by the test for an empty
  dictionary, is handled by a message and \<^verbatim>\<open>sys.exit(1)\<close>; no other exception is
  handled.
\<close>

definition load_targets ::
  "(string \<times> string option) list option \<Rightarrow> string list option \<Rightarrow>
   event list \<times> (error + ((string \<times> string) list \<times> (string \<times> string option) list option))" where
  "load_targets lsb file =
     (case file of
        None \<Rightarrow> ([Stderr_whales], Inl (SystemExit 1))
      | Some ls \<Rightarrow>
          (case load_lines lsb [] ls of
             Inl e \<Rightarrow> ([], Inl e)
           | Inr (tgts, lsb') \<Rightarrow>
               if tgts = [] then ([Stderr_whales], Inl (SystemExit 1))
               else ([Log_tracking (length tgts)], Inr (tgts, lsb'))))"

text \<open>
  \<^verbatim>\<open>ChainSonar.__init__\<close>: the key is \<open>None\<close> when the environment has no
  \<^verbatim>\<open>ETHERSCAN_API_KEY\<close>. \<^verbatim>\<open>load_targets\<close> is called before the attribute
  \<^verbatim>\<open>last_seen_block\<close> is assigned, and the attribute is assigned the empty
  dictionary afterwards.
\<close>

definition init ::
  "string option \<Rightarrow> string list option \<Rightarrow> real \<Rightarrow> real \<Rightarrow> event list \<times> (error + sonar)" where
  "init key file eth stab =
     (case key of
        None \<Rightarrow> ([], Inl EnvironmentError)
      | Some k \<Rightarrow>
          if k = [] then ([], Inl EnvironmentError)
          else
            (case load_targets None file of
               (out, Inl e) \<Rightarrow> (out, Inl e)
             | (out, Inr (tgts, lsb)) \<Rightarrow>
                 (out, Inr \<lparr>ETHERSCAN_API_KEY = k, eth_threshold = eth,
                            stable_threshold = stab, targets = tgts,
                            last_seen_block = []\<rparr>)))"

text \<open>
  The end of the process on an exception that reaches the entry point:
  \<^verbatim>\<open>SystemExit\<close> gives its status; \<^verbatim>\<open>ValueError\<close> and
  \<^verbatim>\<open>EnvironmentError\<close> (with its subclass \<^verbatim>\<open>FileNotFoundError\<close>) are handled
  by a message, after which the script ends with status 0; any other exception ends the
  interpreter with a traceback and status 1. (\<^verbatim>\<open>KeyboardInterrupt\<close> never reaches
  this point from \<^const>\<open>run\<close>; the status of an interrupted interpreter is 130.)
\<close>

fun at_exit :: "error \<Rightarrow> event list \<times> nat" where
  "at_exit (SystemExit n) = ([], n)"
| "at_exit ValueError = ([Stderr_init ValueError], 0)"
| "at_exit EnvironmentError = ([Stderr_init EnvironmentError], 0)"
| "at_exit FileNotFoundError = ([Stderr_init FileNotFoundError], 0)"
| "at_exit KeyboardInterrupt = ([], 130)"
| "at_exit e = ([], 1)"

text \<open>
  The script: the outputs, whether the scan loop was entered, and the exit status
  (\<open>None\<close> while the loop is still running after \<open>n\<close> passes).
\<close>

definition main ::
  "string option \<Rightarrow> string list option \<Rightarrow> real \<Rightarrow> real \<Rightarrow> (nat \<Rightarrow> explorer) \<Rightarrow> nat \<Rightarrow>
   event list \<times> bool \<times> nat option" where
  "main key file eth stab api n =
     (case init key file eth stab of
        (out, Inl e) \<Rightarrow> (case at_exit e of (out', status) \<Rightarrow> (out @ out', False, Some status))
      | (out, Inr st) \<Rightarrow>
          (case run api n st of
             (st', out', None) \<Rightarrow> (out @ out', True, None)
           | (st', out', Some e) \<Rightarrow>
               (case at_exit e of (out'', status) \<Rightarrow> (out @ out' @ out'', True, Some status))))"

subsection \<open>Watermarks and the lower bound of the explorer\<close>

text \<open>The watermark of an address: the block number stored for it, if any.\<close>

definition watermark :: "sonar \<Rightarrow> string \<Rightarrow> string option" where
  "watermark st address =
     (case map_of (last_seen_block st) address of None \<Rightarrow> None | Some w \<Rightarrow> w)"

text \<open>Block numbers are strings; they are compared as the integers they spell.\<close>

definition at_or_above :: "string \<Rightarrow> string \<Rightarrow> bool" where
  "at_or_above b s =
     (case py_int b of
        Inl e \<Rightarrow> False
      | Inr n \<Rightarrow> (case py_int s of Inl e \<Rightarrow> False | Inr m \<Rightarrow> m \<le> n))"

text \<open>\<open>not_below w' w\<close>: a watermark \<open>w\<close> that is set is still set in \<open>w'\<close>, to the same
  block or to a higher one.\<close>

definition not_below :: "string option \<Rightarrow> string option \<Rightarrow> bool" where
  "not_below w' w =
     (case w of
        None \<Rightarrow> True
      | Some s \<Rightarrow> (case w' of None \<Rightarrow> False | Some b \<Rightarrow> b = s \<or> at_or_above b s))"

text \<open>
  The assumption on the explorer: every record of an answer carries a block number, at
  or above the start block of the request when the request has one. (That the records
  come sorted is not needed.)
\<close>

definition answers_from_start :: "explorer \<Rightarrow> bool" where
  "answers_from_start api =
     (\<forall>p txs. api p = Object (Array txs) \<longrightarrow>
        (\<forall>tx \<in> set txs. \<exists>b. map_of tx ''blockNumber'' = Some b \<and>
           (\<forall>s. startblock_p p = Some s \<longrightarrow> at_or_above b s)))"

subsection \<open>Example data\<close>

text \<open>A target \<open>0xabc\<close> named Whale1, with the default thresholds, and incoming
  transfers of 20 and of 10 units of the native currency in the blocks 100 and 105.\<close>

definition ex_st :: sonar where
  "ex_st = \<lparr>ETHERSCAN_API_KEY = ''KEY'', eth_threshold = 10, stable_threshold = 20000,
            targets = [(''0xabc'', ''Whale1'')],
            last_seen_block = [(''0xabc'', Some ''100'')]\<rparr>"

definition ex_tx :: tx where
  "ex_tx = [(''to'', ''0xABC''), (''value'', ''20000000000000000000''),
            (''blockNumber'', ''100''), (''hash'', ''0xh'')]"

definition ex_tx10 :: tx where
  "ex_tx10 = [(''to'', ''0xABC''), (''value'', ''10000000000000000000''),
              (''blockNumber'', ''105''), (''hash'', ''0xg'')]"

definition ex_alert :: "event list" where
  "ex_alert = [Log_signal, Log_whale ''Whale1'' ''0xabc...xabc'', Log_received 20 ''ETH'',
               Log_tx ''0xh'', Notification ''Whale1'' 20 ''ETH'']"

text \<open>An outgoing transfer of the same target.\<close>

definition ex_tx_out :: tx where
  "ex_tx_out = [(''to'', ''0xDEF''), (''from'', ''0xabc''), (''value'', ''20000000000000000000''),
                (''blockNumber'', ''100''), (''hash'', ''0xo'')]"

text \<open>Incoming token transfers: one unit of a token outside the allow-list, and 25 USDC
  with the contract address in lower case, as the explorer gives it.\<close>

definition ex_tx_other :: tx where
  "ex_tx_other = [(''to'', ''0xABC''), (''value'', ''1''), (''tokenSymbol'', ''SHIB''),
                  (''contractAddress'', ''0x95ad61b0a150d79219dcf64e1e6cc01f0b64c4ce''),
                  (''blockNumber'', ''100''), (''hash'', ''0xs'')]"

definition ex_tx_usdc :: tx where
  "ex_tx_usdc = [(''to'', ''0xABC''), (''value'', ''25000000''), (''tokenSymbol'', ''USDC''),
                 (''contractAddress'', ''0xa0b86991c6218b36c1d19d4a2e9eb0ce3606eb48''),
                 (''blockNumber'', ''100''), (''hash'', ''0xu'')]"

text \<open>An explorer that always answers with the transfer of block 100.\<close>

definition ex_api :: "nat \<Rightarrow> explorer" where
  "ex_api j p = (if action_p p = ''txlist'' then Object (Array [ex_tx]) else Object (Array []))"

text \<open>An explorer that answers from the start block: the transfer of block 100 to a
  request without start block, both transfers to a request from block 100.\<close>

definition ex_api_from :: "nat \<Rightarrow> explorer" where
  "ex_api_from j p =
     (if action_p p = ''txlist'' \<and> startblock_p p = None then Object (Array [ex_tx])
      else if action_p p = ''txlist'' \<and> startblock_p p = Some ''100''
      then Object (Array [ex_tx10, ex_tx])
      else Object (Array []))"

definition ex_st_unset :: sonar where
  "ex_st_unset = ex_st\<lparr>last_seen_block := [(''0xabc'', None)]\<rparr>"

text \<open>An explorer without results.\<close>

definition ex_api_empty :: explorer where
  "ex_api_empty p = (if action_p p = ''txlist'' then Object Absent else Object Null)"






text \<open>An address file with a comment and one target.\<close>

definition ex_file :: "string list" where
  "ex_file = [''# whales\<newline>'', ''0xABC, Whale1\<newline>'']"

section \<open>Properties\<close>

subsection \<open>Lower case\<close>

lemma of_char_lt_256: "(of_char c :: nat) < 256"
proof -
  have "(of_char c :: nat) mod 256 < 256" by simp
  then show ?thesis by (simp only: of_char_mod_256)
qed

lemma of_char_lower_char:
  "(of_char (lower_char c) :: nat) < 65 \<or> 90 < (of_char (lower_char c) :: nat)"
proof -
  have b: "(of_char c :: nat) < 256" by (rule of_char_lt_256)
  show ?thesis
    unfolding lower_char_def Let_def using b
    by (auto simp: of_char_of)
qed

lemma lower_no_upper:
  assumes "c \<in> set (lower s)"
  shows "(of_char c :: nat) < 65 \<or> 90 < (of_char c :: nat)"
  using assms of_char_lower_char by (auto simp: lower_def)

lemma lower_not_key:
  assumes "c \<in> set k" and "65 \<le> (of_char c :: nat)" and "(of_char c :: nat) \<le> 90"
  shows "lower s \<noteq> k"
proof
  assume "lower s = k"
  with assms(1) have "c \<in> set (lower s)" by simp
  from lower_no_upper [OF this] assms(2,3) show False by simp
qed

text \<open>Every key of the allow-list holds a capital letter, and a lowered string holds
  none: the lookup of line 115 finds nothing.\<close>

lemma watched_never_found: "map_of WATCHED_TOKENS (lower ca) = None"
proof -
  have 1: "lower ca \<noteq> ''0xC02aaA39b223FE8D0A0e5C4F27eAD9083C756Cc2''"
    by (rule lower_not_key [where c = "CHR ''C''"]) simp_all
  have 2: "lower ca \<noteq> ''0xA0b86991c6218b36c1d19D4a2e9Eb0cE3606eB48''"
    by (rule lower_not_key [where c = "CHR ''A''"]) simp_all
  have 3: "lower ca \<noteq> ''0xdAC17F958D2ee523a2206206994597C13D831ec7''"
    by (rule lower_not_key [where c = "CHR ''A''"]) simp_all
  show ?thesis using 1 2 3 by (simp add: WATCHED_TOKENS_def)
qed

lemma lower_char_idem: "lower_char (lower_char c) = lower_char c"
proof -
  have b: "(of_char c :: nat) < 256" by (rule of_char_lt_256)
  show ?thesis
    unfolding lower_char_def Let_def using b
    by (auto simp: of_char_of)
qed

lemma lower_idem: "lower (lower s) = lower s"
  by (simp add: lower_def lower_char_idem)

subsection \<open>The example data, evaluated\<close>

lemma ex_lower: "lower ''0xABC'' = ''0xabc''"
  by code_simp

lemma ex_abbrev: "abbrev ''0xabc'' = ''0xabc...xabc''"
  by code_simp

lemma ex_classify: "classify ex_st ex_tx = Inr (20, ''ETH'', 10)"
  by code_simp

lemma ex_classify10: "classify ex_st ex_tx10 = Inr (10, ''ETH'', 10)"
  by code_simp

lemma ex_scan_tx: "scan_tx ex_st ''0xabc'' ''Whale1'' ex_tx = (ex_alert, None)"
proof -
  have t: "map_of ex_tx ''to'' = Some ''0xABC''" "map_of ex_tx ''hash'' = Some ''0xh''"
    by (simp_all add: ex_tx_def)
  show ?thesis
    by (simp add: scan_tx_def t ex_lower ex_abbrev ex_classify ex_alert_def)
qed

subsection \<open>Classification of token transfers\<close>

text \<open>Whatever the contract address of a token transfer, lines 114 to 119 leave the
  amount, the symbol and the threshold at their initial values.\<close>

lemma classify_token:
  assumes "map_of tx ''tokenSymbol'' = Some s" and "map_of tx ''contractAddress'' = Some ca"
  shows "classify st tx = Inr (0, [], 0)"
  using assms by (simp add: classify_def watched_never_found)

text \<open>
  Claim C1: a record with a token symbol whose contract address is not in the allow-list
  gives no alert. The code does otherwise: the amount and the threshold both stay 0, the
  test \<^verbatim>\<open>amount >= threshold\<close> of line 121 holds, and the alert is written with
  amount 0 and the empty symbol. The theorem evaluates the scan of such a record sent to
  the target, for any thresholds and any name.
\<close>

theorem unwatched_token_alerts:
  "scan_tx st ''0xabc'' name ex_tx_other =
     ([Log_signal, Log_whale name ''0xabc...xabc'', Log_received 0 [], Log_tx ''0xs'',
       Notification name 0 []], None)"
proof -
  have c: "classify st ex_tx_other = Inr (0, [], 0)"
    by (rule classify_token [where s = "''SHIB''"
          and ca = "''0x95ad61b0a150d79219dcf64e1e6cc01f0b64c4ce''"])
       (simp_all add: ex_tx_other_def)
  have t: "map_of ex_tx_other ''to'' = Some ''0xABC''"
    "map_of ex_tx_other ''hash'' = Some ''0xs''"
    by (simp_all add: ex_tx_other_def)
  show ?thesis
    by (simp add: scan_tx_def t c ex_lower ex_abbrev)
qed

text \<open>
  Claim C2: a token transfer whose lowered contract address matches an entry of the
  allow-list is classified with amount \<open>rawValue / 10^decimals\<close> and the symbol of the
  entry; 25000000 of USDC gives 25.0. The code does otherwise: the keys of
  \<^verbatim>\<open>WATCHED_TOKENS\<close> are written in mixed case and the lookup key is lowered, so
  no address ever matches. The theorem evaluates the transfer of 25 USDC: amount 0,
  empty symbol, threshold 0.
\<close>

theorem usdc_not_classified:
  "classify st ex_tx_usdc = Inr (0, [], 0)"
  by (rule classify_token [where s = "''USDC''"
        and ca = "''0xa0b86991c6218b36c1d19d4a2e9eb0ce3606eb48''"])
     (simp_all add: ex_tx_usdc_def)

subsection \<open>Threshold and direction\<close>

text \<open>
  Claim C6: the comparison with the threshold is inclusive. For a record sent to the
  target whose amount and threshold are computed, the scan writes an alert exactly when
  the amount is at least the threshold; so an amount equal to the threshold qualifies.
\<close>

theorem threshold_inclusive:
  assumes "map_of tx ''to'' = Some dest" and "lower dest = address"
    and "classify st tx = Inr (amount, symb, threshold)"
  shows "(fst (scan_tx st address name tx) \<noteq> []) = (threshold \<le> amount)"
  using assms by (simp add: scan_tx_def split: option.splits)

theorem threshold_inclusive_witness:
  "map_of ex_tx10 ''to'' = Some ''0xABC'' \<and> lower ''0xABC'' = ''0xabc'' \<and>
   classify ex_st ex_tx10 = Inr (10, ''ETH'', 10) \<and>
   fst (scan_tx ex_st ''0xabc'' ''Whale1'' ex_tx10) \<noteq> []"
proof -
  have t: "map_of ex_tx10 ''to'' = Some ''0xABC''" by (simp add: ex_tx10_def)
  from threshold_inclusive [OF t ex_lower ex_classify10, of "''Whale1''"]
  show ?thesis using t ex_lower ex_classify10 by simp
qed

text \<open>
  Claim C7: a record whose to-address differs from the address of the target, letter
  case aside, gives no alert: the scan of the record writes nothing and goes on.
\<close>

theorem outgoing_ignored:
  assumes "map_of tx ''to'' = Some dest" and "lower dest \<noteq> lower address"
  shows "scan_tx st address name tx = ([], None)"
proof -
  have "lower dest \<noteq> address"
  proof
    assume "lower dest = address"
    then have "lower address = lower (lower dest)" by simp
    with assms(2) show False by (simp add: lower_idem)
  qed
  with assms(1) show ?thesis by (simp add: scan_tx_def)
qed

theorem outgoing_ignored_witness:
  "map_of ex_tx_out ''to'' = Some ''0xDEF'' \<and> lower ''0xDEF'' \<noteq> lower ''0xabc'' \<and>
   scan_tx ex_st ''0xabc'' ''Whale1'' ex_tx_out = ([], None)"
proof -
  have t: "map_of ex_tx_out ''to'' = Some ''0xDEF''" by (simp add: ex_tx_out_def)
  have l: "lower ''0xDEF'' \<noteq> lower ''0xabc''" by code_simp
  from outgoing_ignored [OF t l, of ex_st "''Whale1''"] t l show ?thesis by simp
qed

subsection \<open>Empty results\<close>

text \<open>
  Claim C8: when the field \<^verbatim>\<open>result\<close> of both answers is absent or null, the fetch
  returns the empty sequence and no error, and the scan of the target leaves the whole
  state as it was, the watermark of the target included, without output.
\<close>

theorem empty_results_skip:
  assumes "map_of (last_seen_block st) address = Some start"
    and "api (request st ''txlist'' address start) = Object r1"
    and "api (request st ''tokentx'' address start) = Object r2"
    and "r1 = Absent \<or> r1 = Null" and "r2 = Absent \<or> r2 = Null"
  shows "fetch_transactions api st address = Inr (Txs []) \<and>
         scan_target api st (address, name) = (st, [], None)"
proof -
  have f: "fetch_transactions api st address = Inr (Txs [])"
    using assms by (auto simp: fetch_transactions_def)
  then show ?thesis by (simp add: scan_target_def)
qed

theorem empty_results_skip_witness:
  "fetch_transactions ex_api_empty ex_st ''0xabc'' = Inr (Txs []) \<and>
   scan_target ex_api_empty ex_st (''0xabc'', ''Whale1'') = (ex_st, [], None)"
proof -
  have 1: "map_of (last_seen_block ex_st) ''0xabc'' = Some (Some ''100'')"
    by (simp add: ex_st_def)
  have 2: "ex_api_empty (request ex_st ''txlist'' ''0xabc'' (Some ''100'')) = Object Absent"
    by (simp add: ex_api_empty_def request_def)
  have 3: "ex_api_empty (request ex_st ''tokentx'' ''0xabc'' (Some ''100'')) = Object Null"
    by (simp add: ex_api_empty_def request_def)
  show ?thesis
    by (rule empty_results_skip [OF 1 2 3]) simp_all
qed

subsection \<open>Start of the process\<close>

text \<open>
  Claim C5: every configuration failure at the start (no API key, no address file, no
  target in the file) ends the process with a non-zero status before the scan loop. The
  code does otherwise for the key: \<^verbatim>\<open>EnvironmentError\<close> is handled at the entry
  point by a message, after which the script ends with status 0. (The missing or empty
  file ends the process by \<^verbatim>\<open>sys.exit(1)\<close>, see \<open>missing_file_exits_one\<close>.)
\<close>

theorem missing_key_exits_zero:
  "main None file eth stab api n = ([Stderr_init EnvironmentError], False, Some 0)"
  by (simp add: main_def init_def)

lemma missing_file_exits_one:
  "k \<noteq> [] \<Longrightarrow> main (Some k) None eth stab api n = ([Stderr_whales], False, Some 1)"
  by (simp add: main_def init_def load_targets_def)


subsection \<open>The watermark never decreases\<close>

lemma at_or_above_trans:
  "at_or_above b s \<Longrightarrow> at_or_above c b \<Longrightarrow> at_or_above c s"
  by (auto simp: at_or_above_def split: sum.splits)

lemma not_below_refl: "not_below w w"
  by (simp add: not_below_def split: option.splits)

lemma not_below_trans:
  "not_below w2 w1 \<Longrightarrow> not_below w3 w2 \<Longrightarrow> not_below w3 w1"
  by (auto simp: not_below_def split: option.splits intro: at_or_above_trans)

lemma answered_records:
  assumes "answers_from_start api" and "get_result (api p) = Inr r"
    and "or_empty r = Txs xs" and "tx \<in> set xs"
  shows "\<exists>b. map_of tx ''blockNumber'' = Some b \<and>
           (\<forall>s. startblock_p p = Some s \<longrightarrow> at_or_above b s)"
proof -
  from assms(3,4) have r: "r = Array xs"
    by (cases r) (auto split: if_splits)
  from assms(2) r assms(4) have "api p = Object (Array xs)"
  proof (cases "api p")
    case (Object r')
    with assms(2) r assms(4) show ?thesis by (cases r') auto
  qed auto
  with assms(1,4) show ?thesis unfolding answers_from_start_def by blast
qed

lemma watermark_update:
  "watermark (st\<lparr>last_seen_block := AList.update address w (last_seen_block st)\<rparr>) a =
     (if a = address then w else watermark st a)"
  by (simp add: watermark_def update_conv')

text \<open>The first record of a fetch comes from one of the two answers, both requested
  from the stored watermark.\<close>

lemma fetch_head:
  assumes "answers_from_start api"
    and "fetch_transactions api st address = Inr (Txs (tx0 # rest))"
  shows "\<exists>b start. map_of (last_seen_block st) address = Some start \<and>
           map_of tx0 ''blockNumber'' = Some b \<and> (\<forall>s. start = Some s \<longrightarrow> at_or_above b s)"
proof -
  from assms(2) obtain start r1 r2 where
    k: "map_of (last_seen_block st) address = Some start"
    and g1: "get_result (api (request st ''txlist'' address start)) = Inr r1"
    and g2: "get_result (api (request st ''tokentx'' address start)) = Inr r2"
    and a: "py_add (or_empty r1) (or_empty r2) = Inr (Txs (tx0 # rest))"
    by (auto simp: fetch_transactions_def split: option.splits sum.splits)
  from a obtain xs ys where x: "or_empty r1 = Txs xs" and y: "or_empty r2 = Txs ys"
    and c: "xs @ ys = tx0 # rest"
    by (cases "or_empty r1"; cases "or_empty r2") auto
  from c have "tx0 \<in> set xs \<or> tx0 \<in> set ys"
    by (metis UnE list.set_intros(1) set_append)
  then show ?thesis
  proof
    assume "tx0 \<in> set xs"
    from answered_records [OF assms(1) g1 x this] k show ?thesis
      by (auto simp: request_def)
  next
    assume "tx0 \<in> set ys"
    from answered_records [OF assms(1) g2 y this] k show ?thesis
      by (auto simp: request_def)
  qed
qed

lemma scan_target_not_below:
  assumes "answers_from_start api"
  shows "not_below (watermark (fst (scan_target api st t)) a) (watermark st a)"
proof (cases t)
  case (Pair address name)
  show ?thesis
  proof (cases "fetch_transactions api st address")
    case (Inl e)
    with Pair show ?thesis by (simp add: scan_target_def not_below_refl)
  next
    case (Inr f)
    show ?thesis
    proof (cases f)
      case (Chars s)
      with Inr Pair show ?thesis by (simp add: scan_target_def not_below_refl)
    next
      case (Txs txs)
      show ?thesis
      proof (cases txs)
        case Nil
        with Txs Inr Pair show ?thesis by (simp add: scan_target_def not_below_refl)
      next
        case (Cons tx0 rest)
        with Txs Inr have f: "fetch_transactions api st address = Inr (Txs (tx0 # rest))"
          by simp
        from fetch_head [OF assms f] obtain b start where
          k: "map_of (last_seen_block st) address = Some start"
          and b: "map_of tx0 ''blockNumber'' = Some b"
          and s: "\<forall>s. start = Some s \<longrightarrow> at_or_above b s" by blast
        let ?st' = "st\<lparr>last_seen_block := AList.update address (Some b) (last_seen_block st)\<rparr>"
        have "fst (scan_target api st t) = ?st'"
          using Pair f b by (simp add: scan_target_def Let_def split: prod.splits)
        moreover have "not_below (watermark ?st' a) (watermark st a)"
        proof (cases "a = address")
          case True
          have n: "watermark ?st' a = Some b" using True by (simp add: watermark_update)
          have o: "watermark st a = start" using k True by (simp add: watermark_def)
          from s show ?thesis unfolding n o by (cases start) (auto simp: not_below_def)
        next
          case False
          then show ?thesis by (simp add: watermark_update not_below_refl)
        qed
        ultimately show ?thesis by simp
      qed
    qed
  qed
qed

lemma scan_targets_not_below:
  assumes "answers_from_start api"
  shows "not_below (watermark (fst (scan_targets api st ts)) a) (watermark st a)"
proof (induction ts arbitrary: st)
  case Nil
  show ?case by (simp add: not_below_refl)
next
  case (Cons t ts)
  obtain st1 out1 r1 where t: "scan_target api st t = (st1, out1, r1)"
    by (cases "scan_target api st t") auto
  have 1: "not_below (watermark st1 a) (watermark st a)"
    using scan_target_not_below [OF assms, of st t a] t by simp
  show ?case
  proof (cases r1)
    case (Some e)
    with t 1 show ?thesis by simp
  next
    case None
    obtain st2 out2 r2 where ts: "scan_targets api st1 ts = (st2, out2, r2)"
      by (cases "scan_targets api st1 ts") auto
    have 2: "not_below (watermark st2 a) (watermark st1 a)"
      using Cons.IH [of st1] ts by simp
    from t None ts have "fst (scan_targets api st (t # ts)) = st2" by simp
    with not_below_trans [OF 1 2] show ?thesis by simp
  qed
qed

lemma cycles_not_below:
  assumes "\<forall>j. answers_from_start (api j)"
  shows "not_below (watermark (fst (cycles api i n st)) a) (watermark st a)"
proof (induction n arbitrary: i st)
  case 0
  show ?case by (simp add: not_below_refl)
next
  case (Suc n)
  obtain st1 out1 r1 where c: "cycle (api i) st = (st1, out1, r1)"
    by (cases "cycle (api i) st") auto
  have h: "answers_from_start (api i)" using assms by simp
  have 1: "not_below (watermark st1 a) (watermark st a)"
    using scan_targets_not_below [OF h, of st "targets st" a] c by (simp add: cycle_def)
  show ?case
  proof (cases r1)
    case (Some e)
    with c 1 show ?thesis by simp
  next
    case None
    obtain st2 out2 r2 where cs: "cycles api (Suc i) n st1 = (st2, out2, r2)"
      by (cases "cycles api (Suc i) n st1") auto
    have 2: "not_below (watermark st2 a) (watermark st1 a)"
      using Suc.IH [of "Suc i" st1] cs by simp
    from c None cs have "fst (cycles api i (Suc n) st) = st2" by simp
    with not_below_trans [OF 1 2] show ?thesis by simp
  qed
qed

text \<open>\<open>n + k\<close> passes are \<open>n\<close> passes followed, unless an exception ended them, by
  \<open>k\<close> passes.\<close>

lemma cycles_add:
  "cycles api i (n + k) st =
     (case cycles api i n st of
        (st', out, Some e) \<Rightarrow> (st', out, Some e)
      | (st', out, None) \<Rightarrow>
          (case cycles api (i + n) k st' of (st'', out', r) \<Rightarrow> (st'', out @ out', r)))"
proof (induction n arbitrary: i st)
  case 0
  show ?case by (simp split: prod.splits)
next
  case (Suc n)
  show ?case
    by (simp add: Suc.IH split: prod.splits option.splits)
qed

text \<open>
  Claim C3: for every target and every sequence of scan cycles, the watermark of the
  target, once set, never decreases, provided the explorer returns records with block
  numbers at or above the start block it was given. The state after \<open>n + k\<close> passes is
  compared with the state after \<open>n\<close> passes, for every address.
\<close>

theorem watermark_monotonic:
  assumes "\<forall>j. answers_from_start (api j)"
  shows "not_below (watermark (fst (cycles api i (n + k) st)) a)
                   (watermark (fst (cycles api i n st)) a)"
proof -
  obtain st1 out1 r1 where c: "cycles api i n st = (st1, out1, r1)"
    by (cases "cycles api i n st") auto
  show ?thesis
  proof (cases r1)
    case (Some e)
    with c show ?thesis by (simp add: cycles_add not_below_refl)
  next
    case None
    obtain st2 out2 r2 where cs: "cycles api (i + n) k st1 = (st2, out2, r2)"
      by (cases "cycles api (i + n) k st1") auto
    have "not_below (watermark st2 a) (watermark st1 a)"
      using cycles_not_below [OF assms, of "i + n" k st1 a] cs by simp
    with c None cs show ?thesis by (simp add: cycles_add)
  qed
qed

lemma ex_at_or_above:
  "at_or_above ''100'' ''100''" "at_or_above ''105'' ''100''"
  by code_simp+

lemma ex_api_from_answers: "answers_from_start (ex_api_from j)"
  unfolding answers_from_start_def ex_api_from_def
  by (auto simp: ex_tx_def ex_tx10_def ex_at_or_above split: if_splits)

lemma ex_watermarks:
  "watermark (fst (cycles ex_api_from 0 1 ex_st_unset)) ''0xabc'' = Some ''100''"
  "watermark (fst (cycles ex_api_from 0 (1 + 1) ex_st_unset)) ''0xabc'' = Some ''105''"
  by code_simp+

theorem watermark_monotonic_witness:
  "(\<forall>j. answers_from_start (ex_api_from j)) \<and>
   watermark (fst (cycles ex_api_from 0 1 ex_st_unset)) ''0xabc'' = Some ''100'' \<and>
   watermark (fst (cycles ex_api_from 0 (1 + 1) ex_st_unset)) ''0xabc'' = Some ''105'' \<and>
   not_below (watermark (fst (cycles ex_api_from 0 (1 + 1) ex_st_unset)) ''0xabc'')
             (watermark (fst (cycles ex_api_from 0 1 ex_st_unset)) ''0xabc'')"
proof -
  have h: "\<forall>j. answers_from_start (ex_api_from j)" by (simp add: ex_api_from_answers)
  from watermark_monotonic [OF h, of 0 1 1 ex_st_unset "''0xabc''"] h ex_watermarks
  show ?thesis by blast
qed


subsection \<open>Exceptions during a pass\<close>















subsection \<open>Loading the targets\<close>

text \<open>Without the attribute \<^verbatim>\<open>last_seen_block\<close>, the loop over the lines ends with
  \<^verbatim>\<open>AttributeError\<close> at the first line that is neither blank nor a comment.\<close>

lemma load_lines_unset:
  "load_lines None tgts ls =
     (if \<forall>l \<in> set ls. strip l = [] \<or> startswith l ''#'' then Inr (tgts, None)
      else Inl AttributeError)"
  by (induction ls arbitrary: tgts) (auto simp: Let_def)

text \<open>With the attribute, the example file gives the registry that the specification
  describes.\<close>

lemma ex_load_with_attribute:
  "load_targets (Some []) (Some ex_file) =
     ([Log_tracking 1], Inr ([(''0xabc'', ''Whale1'')], Some [(''0xabc'', None)]))"
  by code_simp

text \<open>
  Claim C9: loading the registry skips blank lines and comments and makes one target of
  every other line (address lowered, name given or abbreviated, later lines overwriting
  earlier ones). The code does otherwise: \<^verbatim>\<open>__init__\<close> calls
  \<^verbatim>\<open>load_targets\<close> before it assigns \<^verbatim>\<open>self.last_seen_block\<close>, so line 46
  raises \<^verbatim>\<open>AttributeError\<close> for the first target of the file; no registry is made
  and the process ends with a traceback.
\<close>

theorem load_targets_attribute_error:
  assumes "k \<noteq> []" and "l \<in> set ls" and "strip l \<noteq> []" and "\<not> startswith l ''#''"
  shows "init (Some k) (Some ls) eth stab = ([], Inl AttributeError) \<and>
         main (Some k) (Some ls) eth stab api n = ([], False, Some 1)"
proof -
  have "load_lines None [] ls = Inl AttributeError"
    using assms(2,3,4) by (auto simp: load_lines_unset)
  then have "init (Some k) (Some ls) eth stab = ([], Inl AttributeError)"
    using assms(1) by (simp add: init_def load_targets_def)
  then show ?thesis by (simp add: main_def)
qed

theorem load_targets_attribute_error_witness:
  "''0xABC, Whale1\<newline>'' \<in> set ex_file \<and>
   init (Some ''KEY'') (Some ex_file) 10 20000 = ([], Inl AttributeError) \<and>
   main (Some ''KEY'') (Some ex_file) 10 20000 ex_api 1 = ([], False, Some 1)"
proof -
  have 1: "''KEY'' \<noteq> []" by simp
  have 2: "''0xABC, Whale1\<newline>'' \<in> set ex_file" by (simp add: ex_file_def)
  have 3: "strip ''0xABC, Whale1\<newline>'' \<noteq> []" by code_simp
  have 4: "\<not> startswith ''0xABC, Whale1\<newline>'' ''#''" by code_simp
  from load_targets_attribute_error [OF 1 2 3 4, of 10 20000 ex_api 1] 2
  show ?thesis by simp
qed

subsection \<open>The start block is the watermark itself\<close>

lemma update_same: "map_of al k = Some v \<Longrightarrow> AList.update k v al = al"
  by (induction al) auto

lemma one_target_again:
  assumes "targets st = [(address, name)]"
    and "map_of (last_seen_block st) address = Some (Some b)"
    and "api (request st ''txlist'' address (Some b)) = Object (Array [tx])"
    and "api (request st ''tokentx'' address (Some b)) = Object (Array [])"
    and "map_of tx ''blockNumber'' = Some b"
    and "scan_tx st address name tx = (out, None)"
  shows "cycle api st = (st, out, None)"
proof -
  have f: "fetch_transactions api st address = Inr (Txs [tx])"
    using assms(2,3,4) by (simp add: fetch_transactions_def)
  have u: "st\<lparr>last_seen_block := AList.update address (Some b) (last_seen_block st)\<rparr> = st"
    using update_same [OF assms(2)] by simp
  have "scan_target api st (address, name) = (st, out, None)"
    using f assms(5,6) u by (simp add: scan_target_def)
  with assms(1) show ?thesis by (simp add: cycle_def)
qed

text \<open>
  Claim C10: the lower bound of the fetch is the stored watermark itself, not the block
  after it, so the record of the watermark block is returned again and a qualifying
  transfer of that block is alerted again in consecutive cycles. Let the watermark of
  the only target be \<open>b\<close>, and let the explorer answer every request from start block
  \<open>b\<close> with the one record of block \<open>b\<close>, whose scan writes \<open>out\<close>. Then both
  requests carry the start block \<open>b\<close>, every pass writes \<open>out\<close> again, and the state
  stays as it is.
\<close>

theorem watermark_block_alerts_again:
  assumes "targets st = [(address, name)]"
    and "map_of (last_seen_block st) address = Some (Some b)"
    and "\<forall>j. api j (request st ''txlist'' address (Some b)) = Object (Array [tx])"
    and "\<forall>j. api j (request st ''tokentx'' address (Some b)) = Object (Array [])"
    and "map_of tx ''blockNumber'' = Some b"
    and "scan_tx st address name tx = (out, None)"
  shows "startblock_p (request st act address (Some b)) = Some b \<and>
         cycles api i n st = (st, concat (replicate n out), None)"
proof -
  have c: "cycle (api j) st = (st, out, None)" for j
    using one_target_again [OF assms(1,2) _ _ assms(5,6)] assms(3,4) by blast
  have "cycles api i n st = (st, concat (replicate n out), None)"
  proof (induction n arbitrary: i)
    case 0
    show ?case by simp
  next
    case (Suc n)
    show ?case by (simp add: c Suc.IH)
  qed
  then show ?thesis by (simp add: request_def)
qed

theorem watermark_block_alerts_again_witness:
  "cycles ex_api 0 2 ex_st = (ex_st, ex_alert @ ex_alert, None) \<and> ex_alert \<noteq> []"
proof -
  have 1: "targets ex_st = [(''0xabc'', ''Whale1'')]" by (simp add: ex_st_def)
  have 2: "map_of (last_seen_block ex_st) ''0xabc'' = Some (Some ''100'')"
    by (simp add: ex_st_def)
  have 3: "\<forall>j. ex_api j (request ex_st ''txlist'' ''0xabc'' (Some ''100'')) = Object (Array [ex_tx])"
    by (simp add: ex_api_def request_def)
  have 4: "\<forall>j. ex_api j (request ex_st ''tokentx'' ''0xabc'' (Some ''100'')) = Object (Array [])"
    by (simp add: ex_api_def request_def)
  have 5: "map_of ex_tx ''blockNumber'' = Some ''100''" by (simp add: ex_tx_def)
  have c: "concat (replicate 2 ex_alert) = ex_alert @ ex_alert"
    by (simp add: numeral_2_eq_2)
  have "cycles ex_api 0 2 ex_st = (ex_st, concat (replicate 2 ex_alert), None)"
    using watermark_block_alerts_again [OF 1 2 3 4 5 ex_scan_tx, of "''txlist''" 0 2]
    by (rule conjunct2)
  then show ?thesis unfolding c by (simp add: ex_alert_def)
qed


end
